theory Spec2Isabelle
  imports Complex_Main "HOL-Library.Log_Nat"
begin

section \<open>JavaScript values used by the application\<close>

text \<open>
  Strings are lists of characters. \<open>None\<close> stands for JavaScript's \<open>undefined\<close> or
  \<open>null\<close> wherever the source can produce one of them. A rejected promise or a thrown
  value is either an \<open>Error\<close> object carrying its \<open>message\<close>, or an event object
  (what \<open>img.onerror\<close> and \<open>reader.onerror\<close> pass to \<open>reject\<close>), which has no
  \<open>message\<close> property.
\<close>

datatype thrown = Error string | Event

text \<open>\<open>s.split(c)\<close> for a one-character separator: the pieces between the separators,
  always at least one piece.\<close>

fun split_str :: "char \<Rightarrow> string \<Rightarrow> string list" where
  "split_str c [] = [[]]"
| "split_str c (x # xs) =
     (if x = c then [] # split_str c xs
      else (case split_str c xs of [] \<Rightarrow> [[x]] | y # ys \<Rightarrow> (x # y) # ys))"

text \<open>\<open>xs[i]\<close> on an array: \<open>undefined\<close> out of range.\<close>

definition index_opt :: "'a list \<Rightarrow> nat \<Rightarrow> 'a option" where
  "index_opt xs i = (if i < length xs then Some (xs ! i) else None)"

definition startsWith :: "string \<Rightarrow> string \<Rightarrow> bool" where
  "startsWith s p = (take (length p) s = p)"

text \<open>
  The regular expression \<open>/data:(.*);base64,/\<close> of \<open>handleUseResultAsInput\<close>.
  The dot matches every character except a line terminator (of the characters a
  \<open>char\<close> can hold: line feed and carriage return). \<open>match_group\<close> runs after
  \<open>data:\<close> has been consumed: the star is greedy, so it first tries to take one more
  character and only then tries to match \<open>;base64,\<close> at the current position.
  \<open>exec_data_regex\<close> tries the start positions from left to right and returns the
  first capture group of the first match, as \<open>s.match(re)?.[1]\<close> does.
\<close>

definition is_line_terminator :: "char \<Rightarrow> bool" where
  "is_line_terminator c = (c = CHR 0x0A \<or> c = CHR 0x0D)"

fun match_group :: "string \<Rightarrow> string option" where
  "match_group [] = None"
| "match_group (x # xs) =
     (case (if is_line_terminator x then None else match_group xs) of
        Some g \<Rightarrow> Some (x # g)
      | None \<Rightarrow> if startsWith (x # xs) '';base64,'' then Some [] else None)"

fun exec_data_regex :: "string \<Rightarrow> string option" where
  "exec_data_regex [] = None"
| "exec_data_regex (x # xs) =
     (case (if startsWith (x # xs) ''data:'' then match_group (drop 5 (x # xs)) else None) of
        Some g \<Rightarrow> Some g
      | None \<Rightarrow> exec_data_regex xs)"

section \<open>Data model\<close>

text \<open>
  \<open>ImageData\<close> (the specification's EncodedImage). The field \<open>base64\<close> is computed as
  \<open>url.split(',')[1]\<close> in both places that build the record, so it can be
  \<open>undefined\<close> at run time.
\<close>

record ImageData =
  base64 :: "string option"
  mimeType :: string
  url :: string

subsection \<open>The remote generation service\<close>

datatype modality = MODALITY_UNSPECIFIED | TEXT | IMAGE | AUDIO

datatype content_part = InlineDataPart "string option" string | TextPart string

record request =
  model :: string
  contents_parts :: "content_part list"
  responseModalities :: "modality list"

datatype blob = Blob (blob_data: string) (blob_mimeType: string)

record part =
  inlineData :: "blob option"
  part_text :: "string option"

record content =
  parts :: "part list option"

record candidate =
  candidate_content :: "content option"

record response =
  candidates :: "candidate list option"

subsection \<open>The drawing surface\<close>

text \<open>A decoded image; \<open>width\<close> and \<open>height\<close> are the \<open>unsigned long\<close> attributes of
  the image element, read as numbers.\<close>

record image =
  width :: nat
  height :: nat

datatype font = Font (font_bold: bool) (font_px: rat) (font_family: string)

datatype draw_cmd = DrawImage image rat rat | FillText string rat rat

record canvas =
  canvas_width :: nat
  canvas_height :: nat
  font :: font
  fillStyle :: string
  textAlign :: string
  textBaseline :: string
  shadowColor :: string
  shadowBlur :: rat
  shadowOffsetX :: rat
  shadowOffsetY :: rat
  drawn :: "draw_cmd list"

subsection \<open>The platform and the remote service\<close>

text \<open>
  What the code obtains from outside itself: the constant \<open>IMAGE_EDIT_MODEL\<close>, the
  reply of the remote service to a request (which may depend on the requests sent
  before), the decoding of an image reference (\<open>None\<close> when \<open>onerror\<close> fires), whether
  \<open>getContext('2d')\<close> yields a context, and the PNG encoding of a surface.
\<close>

record env =
  IMAGE_EDIT_MODEL :: string
  service :: "request list \<Rightarrow> request \<Rightarrow> thrown + response"
  loadImage :: "string \<Rightarrow> image option"
  getContext :: bool
  toDataURL :: "canvas \<Rightarrow> string"

section \<open>Synthesis client\<close>

text \<open>\<open>ai.models.generateContent\<close>: one round trip, recorded in the log of requests sent.\<close>

definition generateContent ::
  "env \<Rightarrow> request \<Rightarrow> request list \<Rightarrow> (thrown + response) \<times> request list" where
  "generateContent e req sent = (service e sent req, sent @ [req])"

text \<open>\<open>response.candidates?.[0]?.content?.parts || []\<close>\<close>

definition response_parts :: "response \<Rightarrow> part list" where
  "response_parts r =
     (case candidates r of
        None \<Rightarrow> []
      | Some cs \<Rightarrow>
         (case index_opt cs 0 of
            None \<Rightarrow> []
          | Some c \<Rightarrow>
             (case candidate_content c of
                None \<Rightarrow> []
              | Some ct \<Rightarrow> (case parts ct of None \<Rightarrow> [] | Some ps \<Rightarrow> ps))))"

text \<open>The \<open>for\<close> loop over the parts, returning from inside the loop.\<close>

fun scan_parts :: "part list \<Rightarrow> string option" where
  "scan_parts [] = None"
| "scan_parts (p # ps) =
     (case inlineData p of
        Some b \<Rightarrow> Some (''data:'' @ blob_mimeType b @ '';base64,'' @ blob_data b)
      | None \<Rightarrow> scan_parts ps)"

definition generateOrEditImage ::
  "env \<Rightarrow> string \<Rightarrow> ImageData option \<Rightarrow> request list \<Rightarrow> (thrown + string) \<times> request list" where
  "generateOrEditImage e prompt imageData sent =
     (let contentParts = [];
          contentParts =
            (case imageData of
               Some i \<Rightarrow> contentParts @ [InlineDataPart (base64 i) (mimeType i)]
             | None \<Rightarrow> contentParts);
          contentParts = contentParts @ [TextPart prompt];
          (reply, sent') =
            generateContent e
              \<lparr>model = IMAGE_EDIT_MODEL e, contents_parts = contentParts,
               responseModalities = [IMAGE]\<rparr> sent
      in case reply of
           Inl err \<Rightarrow> (Inl err, sent')
         | Inr response \<Rightarrow>
            (case scan_parts (response_parts response) of
               Some u \<Rightarrow> (Inr u, sent')
             | None \<Rightarrow>
                (Inl (Error ''No image was generated. Please try a different prompt.''), sent')))"

text \<open>The specification's wording of the result: the inline payloads of the parts, in
  the order of the parts; the first of them is the one returned.\<close>

definition inline_payloads :: "part list \<Rightarrow> blob list" where
  "inline_payloads ps = List.map_filter inlineData ps"

section \<open>Image acquisition\<close>

record File =
  file_type :: string
  file_bytes :: "nat list"

text \<open>
  \<open>fileToImageData\<close>. The reader is the platform's \<open>FileReader.readAsDataURL\<close>: it
  ends in \<open>onload\<close> with the data URL as \<open>reader.result\<close> (\<open>Inr\<close>) or in \<open>onerror\<close>
  (\<open>Inl\<close>).
\<close>

definition fileToImageData :: "(File \<Rightarrow> thrown + string) \<Rightarrow> File \<Rightarrow> thrown + ImageData" where
  "fileToImageData readAsDataURL f =
     (case readAsDataURL f of
        Inl err \<Rightarrow> Inl err
      | Inr u \<Rightarrow>
          Inr \<lparr>base64 = index_opt (split_str CHR '','' u) 1, mimeType = file_type f, url = u\<rparr>)"

text \<open>The base64 alphabet, with the padding character.\<close>

definition b64_alphabet :: string where
  "b64_alphabet = ''ABCDEFGHIJKLMNOPQRSTUVWXYZabcdefghijklmnopqrstuvwxyz0123456789+/''"

definition is_base64 :: "string \<Rightarrow> bool" where
  "is_base64 s = list_all (\<lambda>c. c \<in> set b64_alphabet \<or> c = CHR ''='') s"

section \<open>Watermarking\<close>

subsection \<open>Double-precision arithmetic\<close>

text \<open>
  JavaScript numbers are IEEE 754 doubles. A finite double is modelled by the rational
  number it denotes, and every operation rounds its exact result to the nearest double,
  ties to even (\<open>fl\<close>): 53 significant bits. Overflow and subnormal numbers are not
  modelled; the magnitudes that occur here (a 32-bit size times 0.02, 0.03 or 1.2) are
  far from both. A decimal literal denotes the double nearest to it.
\<close>

definition round_half_even :: "rat \<Rightarrow> int" where
  "round_half_even y =
     (let f = \<lfloor>y\<rfloor>; d = y - of_int f
      in if d < 1 / 2 then f else if 1 / 2 < d then f + 1 else if even f then f else f + 1)"

text \<open>The integer part of the binary logarithm of a positive rational.\<close>

definition ilog2 :: "rat \<Rightarrow> int" where
  "ilog2 x =
     (if 1 \<le> x then int (floorlog 2 (nat \<lfloor>x\<rfloor>)) - 1
      else - int (floorlog 2 (nat (\<lceil>1 / x\<rceil> - 1))))"

definition fl :: "rat \<Rightarrow> rat" where
  "fl x =
     (if x = 0 then 0
      else let e = ilog2 \<bar>x\<bar>; u = 2 powi (e - 52)
           in sgn x * of_int (round_half_even (\<bar>x\<bar> / u)) * u)"

definition dmul :: "rat \<Rightarrow> rat \<Rightarrow> rat" where
  "dmul a b = fl (a * b)"

definition dsub :: "rat \<Rightarrow> rat \<Rightarrow> rat" where
  "dsub a b = fl (a - b)"

subsection \<open>addWatermark\<close>

text \<open>\<open>Math.max(12, Math.min(img.width * 0.02, img.height * 0.03))\<close>\<close>

definition fontSize :: "nat \<Rightarrow> nat \<Rightarrow> rat" where
  "fontSize w h = max 12 (min (dmul (of_nat w) (fl (2 / 100))) (dmul (of_nat h) (fl (3 / 100))))"

text \<open>A canvas as \<open>document.createElement('canvas')\<close> returns it.\<close>

definition new_canvas :: canvas where
  "new_canvas =
     \<lparr>canvas_width = 300, canvas_height = 150, font = Font False 10 ''sans-serif'',
      fillStyle = ''#000000'', textAlign = ''start'', textBaseline = ''alphabetic'',
      shadowColor = ''rgba(0, 0, 0, 0)'', shadowBlur = 0, shadowOffsetX = 0,
      shadowOffsetY = 0, drawn = []\<rparr>"

text \<open>The body of \<open>img.onload\<close> once the context has been obtained, up to \<open>fillText\<close>.\<close>

definition draw_watermark :: "image \<Rightarrow> string \<Rightarrow> canvas" where
  "draw_watermark img txt =
     (let c = new_canvas;
          c = c\<lparr>canvas_width := width img\<rparr>;
          c = c\<lparr>canvas_height := height img\<rparr>;
          c = c\<lparr>drawn := drawn c @ [DrawImage img 0 0]\<rparr>;
          fs = fontSize (width img) (height img);
          c = c\<lparr>font := Font True fs ''\"Segoe UI\", Arial, sans-serif''\<rparr>;
          c = c\<lparr>fillStyle := ''rgba(255, 255, 255, 0.5)''\<rparr>;
          c = c\<lparr>textAlign := ''right''\<rparr>;
          c = c\<lparr>textBaseline := ''bottom''\<rparr>;
          c = c\<lparr>shadowColor := ''rgba(0, 0, 0, 0.5)''\<rparr>;
          c = c\<lparr>shadowBlur := 4\<rparr>;
          c = c\<lparr>shadowOffsetX := 0\<rparr>;
          c = c\<lparr>shadowOffsetY := 2\<rparr>;
          padding = dmul fs (fl (12 / 10))
      in c\<lparr>drawn := drawn c @
            [FillText txt (dsub (of_nat (canvas_width c)) padding)
                          (dsub (of_nat (canvas_height c)) padding)]\<rparr>)"

definition addWatermark_surface :: "env \<Rightarrow> string \<Rightarrow> string \<Rightarrow> thrown + canvas" where
  "addWatermark_surface e imageUrl txt =
     (case loadImage e imageUrl of
        None \<Rightarrow> Inl Event
      | Some img \<Rightarrow>
          if \<not> getContext e then Inl (Error ''Could not get canvas context'')
          else Inr (draw_watermark img txt))"

definition addWatermark :: "env \<Rightarrow> string \<Rightarrow> string \<Rightarrow> thrown + string" where
  "addWatermark e imageUrl txt =
     (case addWatermark_surface e imageUrl txt of
        Inl err \<Rightarrow> Inl err
      | Inr c \<Rightarrow> Inr (toDataURL e c))"

section \<open>User-interface session state\<close>

record state =
  selectedImage :: "ImageData option"
  prompt :: string
  isLoading :: bool
  loadingMessage :: string
  error :: "string option"
  resultImage :: "string option"
  modalImageUrl :: "string option"

text \<open>The values given to \<open>useState\<close>.\<close>

definition initial_state :: state where
  "initial_state =
     \<lparr>selectedImage = None, prompt = [], isLoading = False, loadingMessage = [],
      error = None, resultImage = None, modalImageUrl = None\<rparr>"

text \<open>
  A handler reads the state of the render it was created in and calls state setters.
  It is modelled by the list of its setter calls, in order; \<open>render\<close> applies them.
\<close>

datatype setter =
    SetSelectedImage "ImageData option"
  | SetPrompt string
  | SetIsLoading bool
  | SetLoadingMessage string
  | SetError "string option"
  | SetResultImage "string option"
  | SetModalImageUrl "string option"

fun apply_setter :: "setter \<Rightarrow> state \<Rightarrow> state" where
  "apply_setter (SetSelectedImage v) s = s\<lparr>selectedImage := v\<rparr>"
| "apply_setter (SetPrompt v) s = s\<lparr>prompt := v\<rparr>"
| "apply_setter (SetIsLoading v) s = s\<lparr>isLoading := v\<rparr>"
| "apply_setter (SetLoadingMessage v) s = s\<lparr>loadingMessage := v\<rparr>"
| "apply_setter (SetError v) s = s\<lparr>error := v\<rparr>"
| "apply_setter (SetResultImage v) s = s\<lparr>resultImage := v\<rparr>"
| "apply_setter (SetModalImageUrl v) s = s\<lparr>modalImageUrl := v\<rparr>"

definition render :: "setter list \<Rightarrow> state \<Rightarrow> state" where
  "render calls s = fold apply_setter calls s"

text \<open>\<open>!resultImage\<close> holds for \<open>null\<close> and for the empty string.\<close>

definition handleUseResultAsInput :: "state \<Rightarrow> setter list" where
  "handleUseResultAsInput s =
     (case resultImage s of
        None \<Rightarrow> []
      | Some r \<Rightarrow>
          if r = [] then []
          else
            (let mimeType =
                   (case exec_data_regex r of
                      None \<Rightarrow> ''image/png''
                    | Some g \<Rightarrow> if g = [] then ''image/png'' else g);
                 base64 = index_opt (split_str CHR '','' r) 1
             in [SetSelectedImage (Some \<lparr>base64 = base64, mimeType = mimeType, url = r\<rparr>),
                 SetResultImage None]))"

definition handleRemoveImage :: "setter list" where
  "handleRemoveImage = [SetSelectedImage None, SetResultImage None, SetError None]"

text \<open>\<open>err.message || "An unexpected error occurred."\<close>\<close>

fun error_text :: "thrown \<Rightarrow> string" where
  "error_text (Error m) = (if m = [] then ''An unexpected error occurred.'' else m)"
| "error_text Event = ''An unexpected error occurred.''"

definition handleSubmit :: "env \<Rightarrow> state \<Rightarrow> request list \<Rightarrow> setter list \<times> request list" where
  "handleSubmit e s sent =
     (if prompt s = [] then ([SetError (Some ''Please enter a prompt.'')], sent)
      else
        (let calls = [SetIsLoading True, SetError None, SetResultImage None];
             loadingMsg =
               (case selectedImage s of
                  Some i \<Rightarrow> ''Applying your creative edits...''
                | None \<Rightarrow> ''Generating your vision...'');
             calls = calls @ [SetLoadingMessage loadingMsg];
             (r, sent') = generateOrEditImage e (prompt s) (selectedImage s) sent
         in case r of
              Inl err \<Rightarrow> (calls @ [SetError (Some (error_text err)), SetIsLoading False], sent')
            | Inr newImage \<Rightarrow>
               (case addWatermark e newImage ''T H A R A'' of
                  Inl err \<Rightarrow>
                    (calls @ [SetError (Some (error_text err)), SetIsLoading False], sent')
                | Inr watermarkedImage \<Rightarrow>
                    (calls @ [SetResultImage (Some watermarkedImage), SetIsLoading False],
                     sent'))))"


section \<open>The request in the specification's words\<close>

text \<open>Zero or one inline image part (bytes and media type) followed by one text part,
  with a directive restricting the response to image content.\<close>

definition spec_request :: "env \<Rightarrow> string \<Rightarrow> ImageData option \<Rightarrow> request" where
  "spec_request e p img =
     \<lparr>model = IMAGE_EDIT_MODEL e,
      contents_parts =
        (case img of None \<Rightarrow> [] | Some i \<Rightarrow> [InlineDataPart (base64 i) (mimeType i)]) @ [TextPart p],
      responseModalities = [IMAGE]\<rparr>"

section \<open>Example replies of the remote service\<close>

definition reply_of_parts :: "part list \<Rightarrow> response" where
  "reply_of_parts ps =
     \<lparr>candidates = Some [\<lparr>candidate_content = Some \<lparr>parts = Some ps\<rparr>\<rparr>]\<rparr>"

definition text_only_reply :: response where
  "text_only_reply = reply_of_parts [\<lparr>inlineData = None, part_text = Some ''I cannot draw that.''\<rparr>]"

definition image_reply :: response where
  "image_reply =
     reply_of_parts
       [\<lparr>inlineData = None, part_text = Some ''Here is your image.''\<rparr>,
        \<lparr>inlineData = Some (Blob ''iVBORw0KGgo='' ''image/png''), part_text = None\<rparr>,
        \<lparr>inlineData = Some (Blob ''R0lGODlh'' ''image/gif''), part_text = None\<rparr>]"

definition empty_bytes_reply :: response where
  "empty_bytes_reply =
     reply_of_parts [\<lparr>inlineData = Some (Blob [] ''image/png''), part_text = None\<rparr>]"

definition blank_image_reply :: response where
  "blank_image_reply =
     reply_of_parts
       [\<lparr>inlineData = None, part_text = Some ''Here you go.''\<rparr>,
        \<lparr>inlineData = Some (Blob [] ''image/jpeg''), part_text = None\<rparr>]"

definition example_env :: "response \<Rightarrow> env" where
  "example_env r =
     \<lparr>IMAGE_EDIT_MODEL = ''image-edit-model'',
      service = (\<lambda>sent req. Inr r),
      loadImage = (\<lambda>u. Some \<lparr>width = 1000, height = 500\<rparr>),
      getContext = True,
      toDataURL = (\<lambda>c. ''data:image/png;base64,UE5H'')\<rparr>"


section \<open>Example inputs\<close>

text \<open>
  A reader that behaves as the File API prescribes for a readable file with a declared
  type: the data URL of the declared type and the base64 encoding of the bytes.
\<close>

definition b64_char :: "nat \<Rightarrow> char" where
  "b64_char n = b64_alphabet ! (n mod 64)"

fun b64_encode :: "nat list \<Rightarrow> string" where
  "b64_encode [] = []"
| "b64_encode [a] = [b64_char (a div 4), b64_char (a mod 4 * 16), CHR ''='', CHR ''='']"
| "b64_encode [a, b] =
     [b64_char (a div 4), b64_char (a mod 4 * 16 + b div 16), b64_char (b mod 16 * 4), CHR ''='']"
| "b64_encode (a # b # c # bs) =
     [b64_char (a div 4), b64_char (a mod 4 * 16 + b div 16),
      b64_char (b mod 16 * 4 + c div 64), b64_char (c mod 64)] @ b64_encode bs"

definition standard_reader :: "File \<Rightarrow> thrown + string" where
  "standard_reader f = Inr (''data:'' @ file_type f @ '';base64,'' @ b64_encode (file_bytes f))"

definition png_file :: File where
  "png_file = \<lparr>file_type = ''image/png'', file_bytes = [137, 80, 78, 71]\<rparr>"

text \<open>A session after a successful edit, with the result opened in the viewer.\<close>

definition viewing_state :: state where
  "viewing_state =
     \<lparr>selectedImage =
        Some \<lparr>base64 = Some ''iVBORw=='', mimeType = ''image/png'',
              url = ''data:image/png;base64,iVBORw==''\<rparr>,
      prompt = ''make it a painting'', isLoading = False,
      loadingMessage = ''Applying your creative edits...'', error = None,
      resultImage = Some ''data:image/png;base64,UE5H'',
      modalImageUrl = Some ''data:image/png;base64,UE5H''\<rparr>"


section \<open>Properties of the string operations\<close>

lemma split_str_no_sep: "c \<notin> set a \<Longrightarrow> split_str c a = [a]"
  by (induction a) auto

lemma split_str_one_sep: "c \<notin> set a \<Longrightarrow> c \<notin> set b \<Longrightarrow> split_str c (a @ c # b) = [a, b]"
  by (induction a) (auto simp: split_str_no_sep)

lemma split_str_unfold:
  "split_str c s =
     takeWhile (\<lambda>x. x \<noteq> c) s #
       (if c \<in> set s then split_str c (tl (dropWhile (\<lambda>x. x \<noteq> c) s)) else [])"
  by (induction s) (auto split: list.splits)

text \<open>The second piece of a split is the text between the first and the second
  separator, and there is none when the separator does not occur.\<close>

lemma split_str_second:
  "index_opt (split_str c s) 1 =
     (if c \<in> set s
      then Some (takeWhile (\<lambda>x. x \<noteq> c) (tl (dropWhile (\<lambda>x. x \<noteq> c) s)))
      else None)"
proof (cases "c \<in> set s")
  case True
  have "split_str c s =
          takeWhile (\<lambda>x. x \<noteq> c) s # split_str c (tl (dropWhile (\<lambda>x. x \<noteq> c) s))"
    using True split_str_unfold [of c s] by simp
  moreover have "split_str c (tl (dropWhile (\<lambda>x. x \<noteq> c) s)) =
      takeWhile (\<lambda>x. x \<noteq> c) (tl (dropWhile (\<lambda>x. x \<noteq> c) s)) #
        (if c \<in> set (tl (dropWhile (\<lambda>x. x \<noteq> c) s))
         then split_str c (tl (dropWhile (\<lambda>x. x \<noteq> c) (tl (dropWhile (\<lambda>x. x \<noteq> c) s))))
         else [])"
    by (rule split_str_unfold)
  ultimately show ?thesis using True by (simp add: index_opt_def)
next
  case False
  then show ?thesis by (simp add: split_str_no_sep index_opt_def)
qed

lemma is_base64_no_comma: "is_base64 s \<Longrightarrow> CHR '','' \<notin> set s"
  by (induction s) (auto simp: is_base64_def b64_alphabet_def)

lemma b64_char_alphabet: "b64_char n \<in> set b64_alphabet"
proof -
  have "length b64_alphabet = 64" by (simp add: b64_alphabet_def)
  then have "n mod 64 < length b64_alphabet" by simp
  then show ?thesis unfolding b64_char_def by (rule nth_mem)
qed

lemma is_base64_b64_char: "is_base64 (b64_char n # s) = is_base64 s"
  using b64_char_alphabet [of n] by (simp add: is_base64_def)

lemma is_base64_b64_encode: "is_base64 (b64_encode bs)"
  by (induction bs rule: b64_encode.induct)
    (simp_all add: is_base64_b64_char, simp_all add: is_base64_def)

text \<open>The pattern on a well-formed data URL: the capture group is the media type.\<close>

lemma startsWith_base64_comma: "startsWith s '';base64,'' \<Longrightarrow> CHR '','' \<in> set s"
proof -
  assume "startsWith s '';base64,''"
  then have "set '';base64,'' \<subseteq> set s"
    unfolding startsWith_def by (metis set_take_subset)
  then show ?thesis by simp
qed

lemma match_group_no_comma: "CHR '','' \<notin> set b \<Longrightarrow> match_group b = None"
proof (induction b)
  case Nil
  show ?case by simp
next
  case (Cons x xs)
  then have "match_group xs = None" by simp
  moreover have "\<not> startsWith (x # xs) '';base64,''"
    using Cons.prems startsWith_base64_comma by blast
  ultimately show ?case by simp
qed

lemma match_group_marker:
  assumes "CHR '','' \<notin> set b"
  shows "match_group ('';base64,'' @ b) = Some []"
  using match_group_no_comma [OF assms]
  by (simp add: startsWith_def is_line_terminator_def)

lemma match_group_data:
  assumes "CHR '','' \<notin> set b"
  shows "list_all (\<lambda>c. \<not> is_line_terminator c) m \<Longrightarrow> match_group (m @ '';base64,'' @ b) = Some m"
proof (induction m)
  case Nil
  show ?case using match_group_marker [OF assms] by simp
next
  case (Cons x m)
  then show ?case by simp
qed

lemma exec_data_regex_data_url:
  assumes "CHR '','' \<notin> set b" and "list_all (\<lambda>c. \<not> is_line_terminator c) m"
  shows "exec_data_regex (''data:'' @ m @ '';base64,'' @ b) = Some m"
  using match_group_data [OF assms] by (simp add: startsWith_def)

section \<open>Properties of the synthesis client\<close>

lemma scan_parts_payloads:
  "scan_parts ps =
     (case inline_payloads ps of
        [] \<Rightarrow> None
      | b # bs \<Rightarrow> Some (''data:'' @ blob_mimeType b @ '';base64,'' @ blob_data b))"
  by (induction ps) (auto simp: inline_payloads_def List.map_filter_simps split: option.splits)

lemma generateOrEditImage_request:
  "generateOrEditImage e p img sent =
     (case service e sent (spec_request e p img) of
        Inl err \<Rightarrow> Inl err
      | Inr response \<Rightarrow>
          (case scan_parts (response_parts response) of
             Some u \<Rightarrow> Inr u
           | None \<Rightarrow> Inl (Error ''No image was generated. Please try a different prompt.'')),
      sent @ [spec_request e p img])"
  by (cases img)
    (auto simp: generateOrEditImage_def generateContent_def spec_request_def Let_def
      split: sum.splits option.splits)

text \<open>The inline payloads of a list of parts begin with the payload of the first part that
  has an \<open>inlineData\<close> field; there are none exactly when no part has the field.\<close>

lemma inline_payloads_none:
  "(inline_payloads ps = []) = list_all (\<lambda>q. inlineData q = None) ps"
  by (induction ps) (auto simp: inline_payloads_def List.map_filter_simps split: option.splits)

lemma inline_payloads_first:
  "list_all (\<lambda>q. inlineData q = None) pre \<Longrightarrow> inlineData p = Some b \<Longrightarrow>
   inline_payloads (pre @ p # post) = b # inline_payloads post"
  by (induction pre) (auto simp: inline_payloads_def List.map_filter_simps)

lemma inline_payloads_Nil: "inline_payloads [] = []"
  by (simp add: inline_payloads_def List.map_filter_simps)

lemma response_parts_cases:
  "response_parts r =
     (case candidates r of
        None \<Rightarrow> []
      | Some [] \<Rightarrow> []
      | Some (c # cs) \<Rightarrow>
          (case candidate_content c of
             None \<Rightarrow> []
           | Some ct \<Rightarrow> (case parts ct of None \<Rightarrow> [] | Some ps \<Rightarrow> ps)))"
  by (simp add: response_parts_def index_opt_def split: option.splits list.splits)

lemma generateOrEditImage_by_response:
  "fst (generateOrEditImage e p img sent) =
     (case service e sent (spec_request e p img) of
        Inl err \<Rightarrow> Inl err
      | Inr response \<Rightarrow>
          (case candidates response of
             None \<Rightarrow> Inl (Error ''No image was generated. Please try a different prompt.'')
           | Some [] \<Rightarrow> Inl (Error ''No image was generated. Please try a different prompt.'')
           | Some (c # cs) \<Rightarrow>
               (case candidate_content c of
                  None \<Rightarrow> Inl (Error ''No image was generated. Please try a different prompt.'')
                | Some ct \<Rightarrow>
                    (case parts ct of
                       None \<Rightarrow>
                         Inl (Error ''No image was generated. Please try a different prompt.'')
                     | Some ps \<Rightarrow>
                         (case inline_payloads ps of
                            [] \<Rightarrow>
                              Inl (Error
                                ''No image was generated. Please try a different prompt.'')
                          | b # bs \<Rightarrow>
                              Inr (''data:'' @ blob_mimeType b @ '';base64,'' @ blob_data b))))))"
proof (cases "service e sent (spec_request e p img)")
  case (Inl err)
  then show ?thesis by (simp add: generateOrEditImage_request)
next
  case (Inr response)
  have "fst (generateOrEditImage e p img sent) =
      (case inline_payloads (response_parts response) of
         [] \<Rightarrow> Inl (Error ''No image was generated. Please try a different prompt.'')
       | b # bs \<Rightarrow> Inr (''data:'' @ blob_mimeType b @ '';base64,'' @ blob_data b))"
    using Inr by (simp add: generateOrEditImage_request scan_parts_payloads split: list.splits)
  also have "\<dots> =
      (case candidates response of
         None \<Rightarrow> Inl (Error ''No image was generated. Please try a different prompt.'')
       | Some [] \<Rightarrow> Inl (Error ''No image was generated. Please try a different prompt.'')
       | Some (c # cs) \<Rightarrow>
           (case candidate_content c of
              None \<Rightarrow> Inl (Error ''No image was generated. Please try a different prompt.'')
            | Some ct \<Rightarrow>
                (case parts ct of
                   None \<Rightarrow>
                     Inl (Error ''No image was generated. Please try a different prompt.'')
                 | Some ps \<Rightarrow>
                     (case inline_payloads ps of
                        [] \<Rightarrow>
                          Inl (Error
                            ''No image was generated. Please try a different prompt.'')
                      | b # bs \<Rightarrow>
                          Inr (''data:'' @ blob_mimeType b @ '';base64,'' @ blob_data b)))))"
    unfolding response_parts_cases
    by (simp add: inline_payloads_Nil split: option.splits list.splits)
  finally show ?thesis using Inr by simp
qed

text \<open>
  Claim C1, as stated, fails in its failure half: the loop tests only that
  \<open>part.inlineData\<close> is present, not that it holds image bytes. In the reply below no
  part contains image bytes (the text part has none and the inline part has empty
  \<open>data\<close>), yet \<open>generateOrEditImage\<close> does not fail: it returns the placeholder
  \<open>data:image/jpeg;base64,\<close>.
\<close>

theorem generateOrEditImage_succeeds_without_image_bytes:
  "service (example_env blank_image_reply) []
     (spec_request (example_env blank_image_reply) ''a red balloon'' None) =
     Inr \<lparr>candidates =
            Some [\<lparr>candidate_content =
                     Some \<lparr>parts =
                             Some [\<lparr>inlineData = None, part_text = Some ''Here you go.''\<rparr>,
                                   \<lparr>inlineData = Some (Blob [] ''image/jpeg''),
                                    part_text = None\<rparr>]\<rparr>\<rparr>]\<rparr> \<and>
   blob_data (Blob [] ''image/jpeg'') = [] \<and>
   fst (generateOrEditImage (example_env blank_image_reply) ''a red balloon'' None []) =
     Inr ''data:image/jpeg;base64,'' \<and>
   fst (generateOrEditImage (example_env blank_image_reply) ''a red balloon'' None []) \<noteq>
     Inl (Error ''No image was generated. Please try a different prompt.'')"
  by (simp add: generateOrEditImage_def generateContent_def example_env_def
      blank_image_reply_def reply_of_parts_def response_parts_def index_opt_def)

text \<open>
  Claim C1, amended. For every response of the remote service, \<open>generateOrEditImage\<close>
  goes through the parts of the content of the first candidate in order and returns the
  first part that has an \<open>inlineData\<close> field, as the data URL
  \<open>data:<mimeType>;base64,<data>\<close> built from that part's media type and bytes,
  whether or not the bytes are empty; when no part has an \<open>inlineData\<close> field, or the
  response has no candidate, no content or no parts, it fails with the message
  "No image was generated. Please try a different prompt."; an error of the service
  itself is passed on unchanged.
\<close>

theorem generateOrEditImage_first_inlineData_part:
  "fst (generateOrEditImage e p img sent) =
     (case service e sent (spec_request e p img) of
        Inl err \<Rightarrow> Inl err
      | Inr response \<Rightarrow>
          (case candidates response of
             None \<Rightarrow> Inl (Error ''No image was generated. Please try a different prompt.'')
           | Some [] \<Rightarrow> Inl (Error ''No image was generated. Please try a different prompt.'')
           | Some (c # cs) \<Rightarrow>
               (case candidate_content c of
                  None \<Rightarrow> Inl (Error ''No image was generated. Please try a different prompt.'')
                | Some ct \<Rightarrow>
                    (case parts ct of
                       None \<Rightarrow>
                         Inl (Error ''No image was generated. Please try a different prompt.'')
                     | Some ps \<Rightarrow>
                         (case inline_payloads ps of
                            [] \<Rightarrow>
                              Inl (Error
                                ''No image was generated. Please try a different prompt.'')
                          | b # bs \<Rightarrow>
                              Inr (''data:'' @ blob_mimeType b @ '';base64,'' @ blob_data b)))))) \<and>
   (service e sent (spec_request e p img) =
      Inr \<lparr>candidates =
             Some (\<lparr>candidate_content = Some \<lparr>parts = Some (pre @ q # post)\<rparr>\<rparr> # rest)\<rparr> \<and>
    list_all (\<lambda>x. inlineData x = None) pre \<and> inlineData q = Some d \<longrightarrow>
    fst (generateOrEditImage e p img sent) =
      Inr (''data:'' @ blob_mimeType d @ '';base64,'' @ blob_data d)) \<and>
   (service e sent (spec_request e p img) =
      Inr \<lparr>candidates = Some (\<lparr>candidate_content = Some \<lparr>parts = Some qs\<rparr>\<rparr> # rest')\<rparr> \<and>
    list_all (\<lambda>x. inlineData x = None) qs \<longrightarrow>
    fst (generateOrEditImage e p img sent) =
      Inl (Error ''No image was generated. Please try a different prompt.''))"
proof (intro conjI impI)
  show "fst (generateOrEditImage e p img sent) =
     (case service e sent (spec_request e p img) of
        Inl err \<Rightarrow> Inl err
      | Inr response \<Rightarrow>
          (case candidates response of
             None \<Rightarrow> Inl (Error ''No image was generated. Please try a different prompt.'')
           | Some [] \<Rightarrow> Inl (Error ''No image was generated. Please try a different prompt.'')
           | Some (c # cs) \<Rightarrow>
               (case candidate_content c of
                  None \<Rightarrow> Inl (Error ''No image was generated. Please try a different prompt.'')
                | Some ct \<Rightarrow>
                    (case parts ct of
                       None \<Rightarrow>
                         Inl (Error ''No image was generated. Please try a different prompt.'')
                     | Some ps \<Rightarrow>
                         (case inline_payloads ps of
                            [] \<Rightarrow>
                              Inl (Error
                                ''No image was generated. Please try a different prompt.'')
                          | b # bs \<Rightarrow>
                              Inr (''data:'' @ blob_mimeType b @ '';base64,'' @ blob_data b))))))"
    by (rule generateOrEditImage_by_response)
next
  assume a: "service e sent (spec_request e p img) =
      Inr \<lparr>candidates =
             Some (\<lparr>candidate_content = Some \<lparr>parts = Some (pre @ q # post)\<rparr>\<rparr> # rest)\<rparr> \<and>
    list_all (\<lambda>x. inlineData x = None) pre \<and> inlineData q = Some d"
  then have "inline_payloads (pre @ q # post) = d # inline_payloads post"
    by (intro inline_payloads_first) simp_all
  then show "fst (generateOrEditImage e p img sent) =
      Inr (''data:'' @ blob_mimeType d @ '';base64,'' @ blob_data d)"
    using a by (simp add: generateOrEditImage_by_response)
next
  assume a: "service e sent (spec_request e p img) =
      Inr \<lparr>candidates = Some (\<lparr>candidate_content = Some \<lparr>parts = Some qs\<rparr>\<rparr> # rest')\<rparr> \<and>
    list_all (\<lambda>x. inlineData x = None) qs"
  then have "inline_payloads qs = []" by (simp add: inline_payloads_none)
  then show "fst (generateOrEditImage e p img sent) =
      Inl (Error ''No image was generated. Please try a different prompt.'')"
    using a by (simp add: generateOrEditImage_by_response)
qed

theorem generateOrEditImage_first_inlineData_part_witness:
  "service (example_env image_reply) []
     (spec_request (example_env image_reply) ''a red balloon'' None) =
     Inr \<lparr>candidates =
            Some (\<lparr>candidate_content =
                     Some \<lparr>parts =
                             Some ([\<lparr>inlineData = None, part_text = Some ''Here is your image.''\<rparr>] @
                                   \<lparr>inlineData = Some (Blob ''iVBORw0KGgo='' ''image/png''),
                                    part_text = None\<rparr> #
                                   [\<lparr>inlineData = Some (Blob ''R0lGODlh'' ''image/gif''),
                                     part_text = None\<rparr>])\<rparr>\<rparr> # [])\<rparr> \<and>
   fst (generateOrEditImage (example_env image_reply) ''a red balloon'' None []) =
     Inr ''data:image/png;base64,iVBORw0KGgo='' \<and>
   service (example_env text_only_reply) []
     (spec_request (example_env text_only_reply) ''a red balloon'' None) =
     Inr \<lparr>candidates =
            Some (\<lparr>candidate_content =
                     Some \<lparr>parts =
                             Some [\<lparr>inlineData = None,
                                    part_text = Some ''I cannot draw that.''\<rparr>]\<rparr>\<rparr> # [])\<rparr> \<and>
   fst (generateOrEditImage (example_env text_only_reply) ''a red balloon'' None []) =
     Inl (Error ''No image was generated. Please try a different prompt.'')"
proof -
  have s1: "service (example_env image_reply) []
        (spec_request (example_env image_reply) ''a red balloon'' None) =
      Inr \<lparr>candidates =
             Some (\<lparr>candidate_content =
                      Some \<lparr>parts =
                              Some ([\<lparr>inlineData = None, part_text = Some ''Here is your image.''\<rparr>] @
                                    \<lparr>inlineData = Some (Blob ''iVBORw0KGgo='' ''image/png''),
                                     part_text = None\<rparr> #
                                    [\<lparr>inlineData = Some (Blob ''R0lGODlh'' ''image/gif''),
                                      part_text = None\<rparr>])\<rparr>\<rparr> # [])\<rparr>"
    by (simp add: example_env_def image_reply_def reply_of_parts_def)
  have p1: "list_all (\<lambda>x. inlineData x = None)
      [\<lparr>inlineData = None, part_text = Some ''Here is your image.''\<rparr>]"
    by simp
  have q1: "inlineData \<lparr>inlineData = Some (Blob ''iVBORw0KGgo='' ''image/png''), part_text = None\<rparr> =
      Some (Blob ''iVBORw0KGgo='' ''image/png'')"
    by simp
  have r1: "fst (generateOrEditImage (example_env image_reply) ''a red balloon'' None []) =
      Inr (''data:'' @ blob_mimeType (Blob ''iVBORw0KGgo='' ''image/png'') @ '';base64,'' @
           blob_data (Blob ''iVBORw0KGgo='' ''image/png''))"
    by (rule mp [OF generateOrEditImage_first_inlineData_part
                      [THEN conjunct2, THEN conjunct1] conjI [OF s1 conjI [OF p1 q1]]])
  have s2: "service (example_env text_only_reply) []
        (spec_request (example_env text_only_reply) ''a red balloon'' None) =
      Inr \<lparr>candidates =
             Some (\<lparr>candidate_content =
                      Some \<lparr>parts =
                              Some [\<lparr>inlineData = None,
                                     part_text = Some ''I cannot draw that.''\<rparr>]\<rparr>\<rparr> # [])\<rparr>"
    by (simp add: example_env_def text_only_reply_def reply_of_parts_def)
  have p2: "list_all (\<lambda>x. inlineData x = None)
      [\<lparr>inlineData = None, part_text = Some ''I cannot draw that.''\<rparr>]"
    by simp
  have r2: "fst (generateOrEditImage (example_env text_only_reply) ''a red balloon'' None []) =
      Inl (Error ''No image was generated. Please try a different prompt.'')"
    by (rule mp [OF generateOrEditImage_first_inlineData_part
                      [THEN conjunct2, THEN conjunct2] conjI [OF s2 p2]])
  have r1': "fst (generateOrEditImage (example_env image_reply) ''a red balloon'' None []) =
      Inr ''data:image/png;base64,iVBORw0KGgo=''"
    using r1 by simp
  from s1 r1' s2 r2 show ?thesis by (intro conjI)
qed

text \<open>Two runs of the client: a reply with a text part followed by two images yields the
  first image, and a reply with text only fails.\<close>

lemma generateOrEditImage_image_reply:
  "fst (generateOrEditImage (example_env image_reply) ''a red balloon'' None []) =
     Inr ''data:image/png;base64,iVBORw0KGgo=''"
  by (simp add: generateOrEditImage_def generateContent_def example_env_def image_reply_def
      reply_of_parts_def response_parts_def index_opt_def)

lemma generateOrEditImage_text_only_reply:
  "fst (generateOrEditImage (example_env text_only_reply) ''a red balloon'' None []) =
     Inl (Error ''No image was generated. Please try a different prompt.'')"
  by (simp add: generateOrEditImage_def generateContent_def example_env_def text_only_reply_def
      reply_of_parts_def response_parts_def index_opt_def)

text \<open>
  Claim C3, as stated, fails: the loop tests only that \<open>part.inlineData\<close> is present. A
  reply whose first inline part has empty \<open>data\<close> makes \<open>generateOrEditImage\<close> succeed
  with \<open>data:image/png;base64,\<close>, whose bytes (the text after the comma) are empty.
\<close>

theorem generateOrEditImage_empty_bytes_success:
  "fst (generateOrEditImage (example_env empty_bytes_reply) ''a red balloon'' None []) =
     Inr ''data:image/png;base64,'' \<and>
   index_opt (split_str CHR '','' ''data:image/png;base64,'') 1 = Some []"
  by (simp add: generateOrEditImage_def generateContent_def example_env_def
      empty_bytes_reply_def reply_of_parts_def response_parts_def index_opt_def)

text \<open>
  Claim C3, amended. \<open>generateOrEditImage\<close> either fails or returns a non-empty string:
  the data URL of the first inline part of the reply, whose bytes are exactly the
  \<open>data\<close> of that part (so they are empty only when the service sent empty data).
\<close>

theorem generateOrEditImage_success_is_first_payload:
  assumes "fst (generateOrEditImage e p img sent) = Inr u"
  shows "u \<noteq> [] \<and>
    (\<exists>response b bs.
       service e sent (spec_request e p img) = Inr response \<and>
       inline_payloads (response_parts response) = b # bs \<and>
       u = ''data:'' @ blob_mimeType b @ '';base64,'' @ blob_data b)"
  using assms
  by (auto simp: generateOrEditImage_request scan_parts_payloads split: sum.splits list.splits)

theorem generateOrEditImage_success_is_first_payload_witness:
  "fst (generateOrEditImage (example_env image_reply) ''a red balloon'' None []) =
     Inr ''data:image/png;base64,iVBORw0KGgo='' \<and>
   ''data:image/png;base64,iVBORw0KGgo='' \<noteq> [] \<and>
   (\<exists>response b bs.
       service (example_env image_reply) []
         (spec_request (example_env image_reply) ''a red balloon'' None) = Inr response \<and>
       inline_payloads (response_parts response) = b # bs \<and>
       ''data:image/png;base64,iVBORw0KGgo='' =
         ''data:'' @ blob_mimeType b @ '';base64,'' @ blob_data b)"
proof -
  have h: "fst (generateOrEditImage (example_env image_reply) ''a red balloon'' None []) =
     Inr ''data:image/png;base64,iVBORw0KGgo=''"
    by (simp add: generateOrEditImage_def generateContent_def example_env_def image_reply_def
        reply_of_parts_def response_parts_def index_opt_def)
  note t = generateOrEditImage_success_is_first_payload [OF h]
  from h t [THEN conjunct1] t [THEN conjunct2] show ?thesis by (intro conjI)
qed

text \<open>
  Claim C8. Every invocation of \<open>generateOrEditImage\<close> issues exactly one request,
  whatever the service answers: without a seed image its parts are the prompt text
  alone; with a seed image they are the image payload (bytes and media type) followed
  by the prompt text. The request names the configured model and restricts the
  response modalities to \<open>IMAGE\<close>.
\<close>

theorem generateOrEditImage_one_request:
  "snd (generateOrEditImage e p None sent) =
     sent @ [\<lparr>model = IMAGE_EDIT_MODEL e, contents_parts = [TextPart p],
              responseModalities = [IMAGE]\<rparr>] \<and>
   snd (generateOrEditImage e p (Some i) sent) =
     sent @ [\<lparr>model = IMAGE_EDIT_MODEL e,
              contents_parts = [InlineDataPart (base64 i) (mimeType i), TextPart p],
              responseModalities = [IMAGE]\<rparr>] \<and>
   length (snd (generateOrEditImage e p img sent)) = length sent + 1"
  by (simp add: generateOrEditImage_request spec_request_def)

section \<open>Properties of image acquisition\<close>

text \<open>
  Claim C2. When the reader delivers the data URL of the file's declared type and a
  base64 payload, and the declared type contains no comma (as no media type of an
  image does), \<open>fileToImageData\<close> resolves with the record whose \<open>mimeType\<close> is the
  declared type, whose \<open>base64\<close> is the payload, and whose \<open>url\<close> is exactly
  \<open>"data:" + mimeType + ";base64," + base64\<close>.
\<close>

theorem fileToImageData_url_reconstructible:
  assumes "readAsDataURL f = Inr (''data:'' @ file_type f @ '';base64,'' @ payload)"
    and "is_base64 payload"
    and "CHR '','' \<notin> set (file_type f)"
  shows "fileToImageData readAsDataURL f =
           Inr \<lparr>base64 = Some payload, mimeType = file_type f,
                url = ''data:'' @ file_type f @ '';base64,'' @ payload\<rparr>"
proof -
  have "split_str CHR '','' ((''data:'' @ file_type f @ '';base64'') @ CHR '','' # payload) =
          [''data:'' @ file_type f @ '';base64'', payload]"
    using assms(2,3) by (intro split_str_one_sep) (auto dest: is_base64_no_comma)
  then have "index_opt (split_str CHR '','' (''data:'' @ file_type f @ '';base64,'' @ payload)) 1 =
          Some payload"
    by (simp add: index_opt_def)
  then show ?thesis using assms(1) by (simp add: fileToImageData_def)
qed

theorem fileToImageData_url_reconstructible_witness:
  "standard_reader png_file =
     Inr (''data:'' @ file_type png_file @ '';base64,'' @ ''iVBORw=='') \<and>
   is_base64 ''iVBORw=='' \<and> CHR '','' \<notin> set (file_type png_file) \<and>
   fileToImageData standard_reader png_file =
     Inr \<lparr>base64 = Some ''iVBORw=='', mimeType = ''image/png'',
          url = ''data:image/png;base64,iVBORw==''\<rparr>"
proof -
  have e: "b64_encode [137, 80, 78, 71] = ''iVBORw==''" by code_simp
  have h1: "standard_reader png_file =
      Inr (''data:'' @ file_type png_file @ '';base64,'' @ ''iVBORw=='')"
    unfolding standard_reader_def png_file_def by (simp only: File.simps e)
  have h2: "is_base64 ''iVBORw==''" by (simp add: is_base64_def b64_alphabet_def)
  have h3: "CHR '','' \<notin> set (file_type png_file)" by (simp add: png_file_def)
  from fileToImageData_url_reconstructible
         [of standard_reader png_file "''iVBORw==''", OF h1 h2 h3] h1 h2 h3
  show ?thesis by (simp add: png_file_def)
qed

section \<open>Properties of watermarking\<close>








text \<open>The rounding on the constants of the source, and on the well-known
  \<open>3 * 0.1\<close>, which is not \<open>0.3\<close>.\<close>

lemma fl_constants:
  "fl (2 / 100) = 5764607523034235 / 2 ^ 58 \<and>
   fl (3 / 100) = 8646911284551352 / 2 ^ 58 \<and>
   fl (12 / 10) = 5404319552844595 / 2 ^ 52 \<and>
   fl (3 * fl (1 / 10)) = 1351079888211149 / 2 ^ 52 \<and>
   fl 12 = 12 \<and> fl (1000 * fl (2 / 100)) = 20 \<and> fl (500 * fl (3 / 100)) = 15"
  by code_simp


text \<open>
  Claim C7. When the image reference decodes and a 2D context is available,
  \<open>addWatermark\<close> resolves with the encoding of a surface whose width and height are
  those of the decoded image.
\<close>

theorem addWatermark_keeps_dimensions:
  assumes "loadImage e u = Some img" and "getContext e"
  shows "addWatermark_surface e u txt = Inr (draw_watermark img txt) \<and>
         addWatermark e u txt = Inr (toDataURL e (draw_watermark img txt)) \<and>
         canvas_width (draw_watermark img txt) = width img \<and>
         canvas_height (draw_watermark img txt) = height img"
  using assms
  by (simp add: addWatermark_def addWatermark_surface_def draw_watermark_def Let_def)

theorem addWatermark_keeps_dimensions_witness:
  "loadImage (example_env image_reply) ''data:image/png;base64,iVBORw0KGgo='' =
     Some \<lparr>width = 1000, height = 500\<rparr> \<and>
   getContext (example_env image_reply) \<and>
   addWatermark_surface (example_env image_reply) ''data:image/png;base64,iVBORw0KGgo=''
       ''T H A R A'' =
     Inr (draw_watermark \<lparr>width = 1000, height = 500\<rparr> ''T H A R A'') \<and>
   canvas_width (draw_watermark \<lparr>width = 1000, height = 500\<rparr> ''T H A R A'') = 1000 \<and>
   canvas_height (draw_watermark \<lparr>width = 1000, height = 500\<rparr> ''T H A R A'') = 500"
proof -
  have h1: "loadImage (example_env image_reply) ''data:image/png;base64,iVBORw0KGgo='' =
      Some \<lparr>width = 1000, height = 500\<rparr>"
    by (simp add: example_env_def)
  have h2: "getContext (example_env image_reply)" by (simp add: example_env_def)
  note t = addWatermark_keeps_dimensions [OF h1 h2, of "''T H A R A''"]
  have w: "canvas_width (draw_watermark \<lparr>width = 1000, height = 500\<rparr> ''T H A R A'') = 1000"
    using t [THEN conjunct2, THEN conjunct2, THEN conjunct1] by (simp only: image.simps)
  have h: "canvas_height (draw_watermark \<lparr>width = 1000, height = 500\<rparr> ''T H A R A'') = 500"
    using t [THEN conjunct2, THEN conjunct2, THEN conjunct2] by (simp only: image.simps)
  from h1 h2 t [THEN conjunct1] w h show ?thesis by (intro conjI)
qed

section \<open>Properties of the session handlers\<close>

text \<open>
  Claim C4, as stated, fails: \<open>handleRemoveImage\<close> calls three setters only. In a
  session with a prompt, a loading message and an image in the viewer, those three
  fields are the same after the action, so the state is not the empty one.
\<close>

theorem handleRemoveImage_keeps_prompt:
  "prompt (render handleRemoveImage viewing_state) = ''make it a painting'' \<and>
   loadingMessage (render handleRemoveImage viewing_state) = ''Applying your creative edits...'' \<and>
   modalImageUrl (render handleRemoveImage viewing_state) = Some ''data:image/png;base64,UE5H'' \<and>
   render handleRemoveImage viewing_state \<noteq> initial_state"
  by (simp add: render_def handleRemoveImage_def viewing_state_def initial_state_def)

text \<open>
  Claim C4, amended. \<open>handleRemoveImage\<close> clears \<open>selectedImage\<close>, \<open>resultImage\<close> and
  \<open>error\<close>, and leaves \<open>prompt\<close>, \<open>isLoading\<close>, \<open>loadingMessage\<close> and \<open>modalImageUrl\<close>
  as they were.
\<close>

theorem handleRemoveImage_clears_three_fields:
  "render handleRemoveImage s = s\<lparr>selectedImage := None, resultImage := None, error := None\<rparr> \<and>
   selectedImage (render handleRemoveImage s) = None \<and>
   resultImage (render handleRemoveImage s) = None \<and>
   error (render handleRemoveImage s) = None \<and>
   prompt (render handleRemoveImage s) = prompt s \<and>
   isLoading (render handleRemoveImage s) = isLoading s \<and>
   loadingMessage (render handleRemoveImage s) = loadingMessage s \<and>
   modalImageUrl (render handleRemoveImage s) = modalImageUrl s"
  by (simp add: render_def handleRemoveImage_def)

text \<open>
  Claim C5, as stated, fails in two ways. The value of \<open>resultImage\<close> stays in the
  session: it becomes the \<open>url\<close> of the new \<open>selectedImage\<close>, and \<open>modalImageUrl\<close>, which
  the handler does not touch, still holds it when the result was open in the viewer.
  And a \<open>resultImage\<close> that is the empty string is not null, yet the handler returns at
  once and changes nothing.
\<close>

theorem handleUseResultAsInput_retains_result:
  "resultImage viewing_state = Some ''data:image/png;base64,UE5H'' \<and>
   modalImageUrl (render (handleUseResultAsInput viewing_state) viewing_state) =
     Some ''data:image/png;base64,UE5H'' \<and>
   map_option url (selectedImage (render (handleUseResultAsInput viewing_state) viewing_state)) =
     Some ''data:image/png;base64,UE5H'' \<and>
   render (handleUseResultAsInput (initial_state\<lparr>resultImage := Some []\<rparr>))
     (initial_state\<lparr>resultImage := Some []\<rparr>) = initial_state\<lparr>resultImage := Some []\<rparr>"
  by (simp add: render_def handleUseResultAsInput_def viewing_state_def initial_state_def Let_def)

text \<open>
  Claim C5, amended. For a \<open>resultImage\<close> that is a non-empty string \<open>r\<close>,
  \<open>handleUseResultAsInput\<close> sets \<open>selectedImage\<close> to the record built from \<open>r\<close> (its
  \<open>url\<close> is \<open>r\<close> itself), sets \<open>resultImage\<close> to null, and leaves \<open>prompt\<close>, \<open>isLoading\<close>,
  \<open>loadingMessage\<close>, \<open>error\<close> and \<open>modalImageUrl\<close> unchanged.
\<close>

theorem handleUseResultAsInput_promotes:
  assumes "resultImage s = Some r" and "r \<noteq> []"
  shows "render (handleUseResultAsInput s) s =
           s\<lparr>selectedImage :=
                Some \<lparr>base64 = index_opt (split_str CHR '','' r) 1,
                      mimeType =
                        (case exec_data_regex r of
                           None \<Rightarrow> ''image/png''
                         | Some g \<Rightarrow> if g = [] then ''image/png'' else g),
                      url = r\<rparr>,
              resultImage := None\<rparr> \<and>
         resultImage (render (handleUseResultAsInput s) s) = None \<and>
         map_option url (selectedImage (render (handleUseResultAsInput s) s)) = Some r \<and>
         prompt (render (handleUseResultAsInput s) s) = prompt s \<and>
         isLoading (render (handleUseResultAsInput s) s) = isLoading s \<and>
         loadingMessage (render (handleUseResultAsInput s) s) = loadingMessage s \<and>
         error (render (handleUseResultAsInput s) s) = error s \<and>
         modalImageUrl (render (handleUseResultAsInput s) s) = modalImageUrl s"
  using assms by (simp add: render_def handleUseResultAsInput_def Let_def)

theorem handleUseResultAsInput_promotes_witness:
  "resultImage viewing_state = Some ''data:image/png;base64,UE5H'' \<and>
   ''data:image/png;base64,UE5H'' \<noteq> [] \<and>
   render (handleUseResultAsInput viewing_state) viewing_state =
     viewing_state
       \<lparr>selectedImage :=
          Some \<lparr>base64 = Some ''UE5H'', mimeType = ''image/png'',
                url = ''data:image/png;base64,UE5H''\<rparr>,
        resultImage := None\<rparr> \<and>
   prompt (render (handleUseResultAsInput viewing_state) viewing_state) = ''make it a painting''"
proof -
  have h1: "resultImage viewing_state = Some ''data:image/png;base64,UE5H''"
    by (simp add: viewing_state_def)
  have h2: "''data:image/png;base64,UE5H'' \<noteq> []" by simp
  have g: "exec_data_regex ''data:image/png;base64,UE5H'' = Some ''image/png''"
    by (simp add: startsWith_def is_line_terminator_def)
  have b: "index_opt (split_str CHR '','' ''data:image/png;base64,UE5H'') 1 = Some ''UE5H''"
    by (simp add: index_opt_def)
  have p: "prompt viewing_state = ''make it a painting''" by (simp add: viewing_state_def)
  note t = handleUseResultAsInput_promotes [OF h1 h2]
  have r: "render (handleUseResultAsInput viewing_state) viewing_state =
     viewing_state
       \<lparr>selectedImage :=
          Some \<lparr>base64 = Some ''UE5H'', mimeType = ''image/png'',
                url = ''data:image/png;base64,UE5H''\<rparr>,
        resultImage := None\<rparr>"
    using t [THEN conjunct1] by (simp only: g b option.case list.distinct if_False)
  have q: "prompt (render (handleUseResultAsInput viewing_state) viewing_state) =
      ''make it a painting''"
    using t [THEN conjunct2, THEN conjunct2, THEN conjunct2, THEN conjunct1] by (simp only: p)
  from h1 h2 r q show ?thesis by (intro conjI)
qed

text \<open>On a well-formed data URL the promoted record is the one the URL encodes: its
  bytes and media type are the two components of the URL.\<close>

lemma handleUseResultAsInput_data_url:
  assumes "resultImage s = Some (''data:'' @ m @ '';base64,'' @ b)"
    and "m \<noteq> []" and "list_all (\<lambda>c. \<not> is_line_terminator c) m"
    and "CHR '','' \<notin> set m" and "CHR '','' \<notin> set b"
  shows "selectedImage (render (handleUseResultAsInput s) s) =
           Some \<lparr>base64 = Some b, mimeType = m, url = ''data:'' @ m @ '';base64,'' @ b\<rparr>"
proof -
  have "split_str CHR '','' ((''data:'' @ m @ '';base64'') @ CHR '','' # b) =
          [''data:'' @ m @ '';base64'', b]"
    using assms(4,5) by (intro split_str_one_sep) auto
  then have b: "index_opt (split_str CHR '','' (''data:'' @ m @ '';base64,'' @ b)) 1 = Some b"
    by (simp add: index_opt_def)
  have g: "exec_data_regex (''data:'' @ m @ '';base64,'' @ b) = Some m"
    using assms(5,3) by (rule exec_data_regex_data_url)
  have n: "''data:'' @ m @ '';base64,'' @ b \<noteq> []" by simp
  show ?thesis
    unfolding render_def handleUseResultAsInput_def Let_def
    by (simp only: assms(1) option.case n if_False g b assms(2) fold_simps apply_setter.simps
        id_apply comp_apply, simp)
qed

text \<open>
  Claim C9. With an empty prompt, \<open>handleSubmit\<close> makes a single setter call, the one
  that sets the error to "Please enter a prompt."; it does not set \<open>isLoading\<close> and it
  sends no request.
\<close>

theorem handleSubmit_empty_prompt:
  assumes "prompt s = []"
  shows "handleSubmit e s sent = ([SetError (Some ''Please enter a prompt.'')], sent) \<and>
         render (fst (handleSubmit e s sent)) s = s\<lparr>error := Some ''Please enter a prompt.''\<rparr> \<and>
         SetIsLoading True \<notin> set (fst (handleSubmit e s sent)) \<and>
         isLoading (render (fst (handleSubmit e s sent)) s) = isLoading s \<and>
         snd (handleSubmit e s sent) = sent"
  using assms by (simp add: handleSubmit_def render_def)

theorem handleSubmit_empty_prompt_witness:
  "prompt initial_state = [] \<and>
   handleSubmit (example_env image_reply) initial_state [] =
     ([SetError (Some ''Please enter a prompt.'')], []) \<and>
   render (fst (handleSubmit (example_env image_reply) initial_state [])) initial_state =
     initial_state\<lparr>error := Some ''Please enter a prompt.''\<rparr>"
proof -
  have h: "prompt initial_state = []" by (simp add: initial_state_def)
  note t = handleSubmit_empty_prompt [OF h, of "example_env image_reply" "[]"]
  from h t [THEN conjunct1] t [THEN conjunct2, THEN conjunct1] show ?thesis by (intro conjI)
qed

text \<open>
  Claim C10, as stated, fails in two ways. The bytes are \<open>split(',')[1]\<close>: the text
  between the first and the second comma, not everything after the first comma; for
  \<open>a,b,c\<close> they are \<open>b\<close>. And the empty string, which does not match the pattern
  either, is not promoted at all.
\<close>

theorem handleUseResultAsInput_bytes_stop_at_second_comma:
  "exec_data_regex ''a,b,c'' = None \<and>
   selectedImage (render (handleUseResultAsInput (initial_state\<lparr>resultImage := Some ''a,b,c''\<rparr>))
                    (initial_state\<lparr>resultImage := Some ''a,b,c''\<rparr>)) =
     Some \<lparr>base64 = Some ''b'', mimeType = ''image/png'', url = ''a,b,c''\<rparr> \<and>
   exec_data_regex [] = None \<and>
   selectedImage (render (handleUseResultAsInput (initial_state\<lparr>resultImage := Some []\<rparr>))
                    (initial_state\<lparr>resultImage := Some []\<rparr>)) = None"
  by (simp add: render_def handleUseResultAsInput_def initial_state_def Let_def index_opt_def
      startsWith_def is_line_terminator_def)

text \<open>
  Claim C10, amended. When \<open>resultImage\<close> is a non-empty string that does not match the
  pattern, \<open>handleUseResultAsInput\<close> promotes it: the new \<open>selectedImage\<close> has media type
  \<open>image/png\<close>, its \<open>url\<close> is the prior \<open>resultImage\<close> unchanged, and its bytes are the
  text between the first comma and the second one (or the end of the string),
  undefined when there is no comma; \<open>resultImage\<close> becomes null.
\<close>

theorem handleUseResultAsInput_unmatched_pattern:
  assumes "resultImage s = Some r" and "r \<noteq> []" and "exec_data_regex r = None"
  shows "selectedImage (render (handleUseResultAsInput s) s) =
           Some \<lparr>base64 =
                   (if CHR '','' \<in> set r
                    then Some (takeWhile (\<lambda>c. c \<noteq> CHR '','')
                                 (tl (dropWhile (\<lambda>c. c \<noteq> CHR '','') r)))
                    else None),
                 mimeType = ''image/png'', url = r\<rparr> \<and>
         resultImage (render (handleUseResultAsInput s) s) = None"
  using assms split_str_second [of "CHR '',''" r]
  by (simp add: render_def handleUseResultAsInput_def Let_def del: split_str.simps)

theorem handleUseResultAsInput_unmatched_pattern_witness:
  "resultImage (initial_state\<lparr>resultImage := Some ''picture,AAAA''\<rparr>) = Some ''picture,AAAA'' \<and>
   ''picture,AAAA'' \<noteq> [] \<and> exec_data_regex ''picture,AAAA'' = None \<and>
   selectedImage
     (render (handleUseResultAsInput (initial_state\<lparr>resultImage := Some ''picture,AAAA''\<rparr>))
        (initial_state\<lparr>resultImage := Some ''picture,AAAA''\<rparr>)) =
     Some \<lparr>base64 = Some ''AAAA'', mimeType = ''image/png'', url = ''picture,AAAA''\<rparr>"
proof -
  have h1: "resultImage (initial_state\<lparr>resultImage := Some ''picture,AAAA''\<rparr>) =
      Some ''picture,AAAA''"
    by simp
  have h2: "''picture,AAAA'' \<noteq> []" by simp
  have h3: "exec_data_regex ''picture,AAAA'' = None"
    by (simp add: startsWith_def is_line_terminator_def)
  from handleUseResultAsInput_unmatched_pattern [OF h1 h2 h3] h1 h2 h3 show ?thesis by simp
qed

text \<open>Two complete submissions with the prompt "a red balloon" and no seed image:
  a text-only reply ends with the error message of the synthesis client, a reply with an
  image ends with the watermarked result; each sends one request.\<close>

lemma handleSubmit_text_only_reply:
  "handleSubmit (example_env text_only_reply) (initial_state\<lparr>prompt := ''a red balloon''\<rparr>) [] =
     ([SetIsLoading True, SetError None, SetResultImage None,
       SetLoadingMessage ''Generating your vision...'',
       SetError (Some ''No image was generated. Please try a different prompt.''),
       SetIsLoading False],
      [\<lparr>model = ''image-edit-model'', contents_parts = [TextPart ''a red balloon''],
        responseModalities = [IMAGE]\<rparr>])"
  by (simp add: handleSubmit_def generateOrEditImage_def generateContent_def example_env_def
      text_only_reply_def reply_of_parts_def response_parts_def index_opt_def initial_state_def)

lemma handleSubmit_image_reply:
  "fst (handleSubmit (example_env image_reply) (initial_state\<lparr>prompt := ''a red balloon''\<rparr>) []) =
     [SetIsLoading True, SetError None, SetResultImage None,
      SetLoadingMessage ''Generating your vision...'',
      SetResultImage (Some ''data:image/png;base64,UE5H''), SetIsLoading False]"
  by (simp add: handleSubmit_def generateOrEditImage_def generateContent_def example_env_def
      image_reply_def reply_of_parts_def response_parts_def index_opt_def initial_state_def
      addWatermark_def addWatermark_surface_def)

end
